theory Spec2Isabelle
  imports Main
begin

section \<open>Values handed to the constructs\<close>

text \<open>
  \<^verbatim>\<open>test_infra/stacks/base_stack.py\<close> declares one stack: the constructor of
  \<^verbatim>\<open>BaseStack\<close> creates constructs one after the other, each registered as a child
  of the stack. The model keeps every keyword argument the source passes, under the
  source's name (prefixed where two constructs share a name), and nothing the source does
  not pass.

  The body of the constructor can raise in two ways: a subscript on a list of subnets
  that is too short (Python's IndexError), and \<^verbatim>\<open>node.find_child\<close> on a subnet
  without a child of the given id.

  The framework also refuses a second child under an id its scope already has. For the
  stack itself this is the third way to raise: line 15 registers the stack under the
  scope it is given, and a scope that already has a child of that id refuses it. For the
  children of the stack the ids the source passes are distinct literals, except the ids
  of the string parameters, which are built from the node ids of the public subnets;
  those subnets are children of one network construct, so the framework has already made
  their node ids distinct. The model has no branch for a refusal among the children of
  the stack.
\<close>

datatype error = IndexError | NoChildWithId string | ConstructNameExists string

text \<open>\<^verbatim>\<open>Duration.days(n)\<close>.\<close>

datatype duration = Days nat

text \<open>\<^verbatim>\<open>iam.Effect\<close>, and the principals and managed policies the source names.\<close>

datatype effect = ALLOW | DENY

datatype principal = AccountRootPrincipal | ServicePrincipal string

datatype managed_policy = from_aws_managed_policy_name string

text \<open>
  Modelled from the spec: the enumeration \<^verbatim>\<open>logs.RetentionDays\<close> belongs to the
  provisioning framework and is not declared in the repository. The source uses its member
  \<^verbatim>\<open>ONE_MONTH\<close>, whose period the spec gives as 30 days; the members for the shorter
  periods carry their number of days or weeks in their names.
\<close>

datatype RetentionDays =
  ONE_DAY | THREE_DAYS | FIVE_DAYS | ONE_WEEK | TWO_WEEKS | ONE_MONTH

fun retention_in_days :: "RetentionDays \<Rightarrow> nat" where
  "retention_in_days ONE_DAY = 1"
| "retention_in_days THREE_DAYS = 3"
| "retention_in_days FIVE_DAYS = 5"
| "retention_in_days ONE_WEEK = 7"
| "retention_in_days TWO_WEEKS = 14"
| "retention_in_days ONE_MONTH = 30"

text \<open>
  \<^verbatim>\<open>iam.PolicyStatement\<close> and \<^verbatim>\<open>iam.PolicyDocument\<close>. The statement of the key policy
  passes \<^verbatim>\<open>sid\<close>, \<^verbatim>\<open>effect\<close> and \<^verbatim>\<open>principals\<close>; the statement of the role's inline
  policy passes neither, hence the options and the empty list.
\<close>

record policy_statement =
  sid :: "string option"
  statement_effect :: "effect option"
  actions :: "string list"
  principals :: "principal list"
  resources :: "string list"

record policy_document =
  statements :: "policy_statement list"

section \<open>The network the framework derives\<close>

text \<open>
  A subnet as the constructor reads it: \<^verbatim>\<open>node.id\<close>, \<^verbatim>\<open>subnet_id\<close> and the children
  of its node, each child id paired with the \<^verbatim>\<open>ref\<close> of that child.
\<close>

record subnet =
  node_id :: string
  subnet_id :: string
  node_children :: "(string \<times> string) list"

text \<open>
  What the framework computes and the constructor only reads back: the region of the
  stack, the subnets the network construct allocates, and the attribute of each construct
  that the constructor passes on (ids, ARNs, names). The constructor cannot influence
  them, so they are a parameter of the model.
\<close>

record engine =
  region :: string
  engine_vpc_id :: string
  engine_public_subnets :: "subnet list"
  engine_private_subnets :: "subnet list"
  engine_key_arn :: string
  engine_bucket_name :: string
  engine_role_arn :: string
  engine_database_name :: string
  engine_log_group_name :: string
  engine_log_stream_name :: string

section \<open>The constructs\<close>

record vpc =
  vpc_construct_id :: string
  cidr :: string
  enable_dns_hostnames :: bool
  enable_dns_support :: bool
  tags :: "(string \<times> string) list"
  vpc_id :: string
  public_subnets :: "subnet list"
  private_subnets :: "subnet list"

record string_parameter =
  parameter_construct_id :: string
  string_value :: string
  parameter_name :: string
  parameter_description :: string

record key =
  key_construct_id :: string
  key_description :: string
  policy :: policy_document
  key_arn :: string

text \<open>\<^verbatim>\<open>kms.Alias\<close>.\<close>

record key_alias =
  alias_construct_id :: string
  alias_name :: string
  target_key :: key

record block_public_access =
  block_public_acls :: bool
  block_public_policy :: bool
  ignore_public_acls :: bool
  restrict_public_buckets :: bool

record lifecycle_rule =
  rule_id :: string
  enabled :: bool
  expiration :: duration
  abort_incomplete_multipart_upload_after :: duration

record bucket =
  bucket_construct_id :: string
  bucket_block_public_access :: block_public_access
  lifecycle_rules :: "lifecycle_rule list"
  versioned :: bool
  bucket_name :: string

record role =
  role_construct_id :: string
  role_name :: string
  assumed_by :: principal
  managed_policies :: "managed_policy list"
  inline_policies :: "(string \<times> policy_document) list"
  role_arn :: string

record database =
  database_construct_id :: string
  database_name_argument :: string
  location_uri :: string
  database_name :: string

text \<open>
  \<^verbatim>\<open>lf.CfnPermissions\<close> with its nested properties. \<^verbatim>\<open>table_wildcard={}\<close> is the
  empty dictionary, here the empty association list.
\<close>

record table_resource =
  table_database_name :: string
  table_wildcard :: "(string \<times> string) list"

record cfn_permissions =
  permissions_construct_id :: string
  data_lake_principal_identifier :: string
  resource_table_resource :: table_resource
  permissions :: "string list"

record log_group =
  log_group_construct_id :: string
  retention :: RetentionDays
  log_group_name :: string

record log_stream =
  log_stream_construct_id :: string
  stream_log_group :: log_group
  log_stream_name :: string

record cfn_output =
  output_construct_id :: string
  output_value :: string
  export_name :: "string option"

datatype construct =
    VpcC vpc
  | StringParameterC string_parameter
  | KeyC key
  | AliasC key_alias
  | BucketC bucket
  | RoleC role
  | DatabaseC database
  | CfnPermissionsC cfn_permissions
  | LogGroupC log_group
  | LogStreamC log_stream
  | CfnOutputC cfn_output

text \<open>
  The stack: the scope and id it was created under, the configuration map
  (\<^verbatim>\<open>**kwargs\<close>) passed through to \<^verbatim>\<open>Stack.__init__\<close>, and its children in the order
  of their declaration.
\<close>

record stack =
  stack_scope :: string
  stack_construct_id :: string
  stack_kwargs :: "(string \<times> string) list"
  children :: "construct list"

section \<open>Operations of the language and the framework\<close>

text \<open>
  Registering a construct: every construct call of the source takes \<^verbatim>\<open>self\<close> as its
  scope, which appends the new construct to the children of the stack.
\<close>

definition add_child :: "construct \<Rightarrow> stack \<Rightarrow> stack" where
  "add_child c self = self\<lparr>children := children self @ [c]\<rparr>"

text \<open>
  \<^verbatim>\<open>xs[i]\<close> for the non-negative literal indices of the source: out of range raises
  IndexError.
\<close>

definition getitem :: "'a list \<Rightarrow> nat \<Rightarrow> error + 'a" where
  "getitem xs i = (if i < length xs then Inr (xs ! i) else Inl IndexError)"

text \<open>
  \<^verbatim>\<open>subnet.node.find_child(id).ref\<close>: the \<^verbatim>\<open>ref\<close> of the child with that id; the
  framework raises when the node has no such child.
\<close>

definition find_child :: "subnet \<Rightarrow> string \<Rightarrow> error + string" where
  "find_child s child_id =
     (case map_of (node_children s) child_id of
        None \<Rightarrow> Inl (NoChildWithId child_id)
      | Some ref \<Rightarrow> Inr ref)"

text \<open>\<^verbatim>\<open>CfnOutput(self, id, value=..., export_name=...)\<close>.\<close>

definition CfnOutput :: "string \<Rightarrow> string \<Rightarrow> string option \<Rightarrow> stack \<Rightarrow> stack" where
  "CfnOutput output_id v export self =
     add_child (CfnOutputC \<lparr>output_construct_id = output_id, output_value = v,
                            export_name = export\<rparr>) self"

section \<open>The constructor of the stack\<close>

text \<open>
  Lines 17 to 24: the network. The tag is added to the object after it has been
  registered; the registered child is that same object, so the child carries the tag.
\<close>

definition self_vpc :: "engine \<Rightarrow> vpc" where
  "self_vpc eng =
     (let v = \<lparr>vpc_construct_id = ''aws-sdk-pandas-vpc'',
               cidr = ''11.19.224.0/19'',
               enable_dns_hostnames = True,
               enable_dns_support = True,
               tags = [],
               vpc_id = engine_vpc_id eng,
               public_subnets = engine_public_subnets eng,
               private_subnets = engine_private_subnets eng\<rparr>
      in v\<lparr>tags := tags v @ [(''Name'', ''aws-sdk-pandas'')]\<rparr>)"

text \<open>
  Lines 27 to 35: the body of the loop over the public subnets. It looks up the child
  \<^verbatim>\<open>EIP\<close> of the subnet and builds the string parameter from it.
\<close>

definition eip_string_parameter :: "subnet \<Rightarrow> error + string_parameter" where
  "eip_string_parameter public_subnet =
     (case find_child public_subnet ''EIP'' of
        Inl e \<Rightarrow> Inl e
      | Inr elastic_ip \<Rightarrow>
          Inr \<lparr>parameter_construct_id = node_id public_subnet @ '' EIP SSM'',
               string_value = elastic_ip,
               parameter_name = ''/SDKPandas/VPC/'' @ node_id public_subnet @ ''/EIP'',
               parameter_description =
                 ''Elastic IP associated with public subnet '' @ subnet_id public_subnet\<rparr>)"

text \<open>The loop itself: one parameter per subnet, in order; the first failure ends it.\<close>

fun declare_eip_parameters :: "subnet list \<Rightarrow> stack \<Rightarrow> error + stack" where
  "declare_eip_parameters [] self = Inr self"
| "declare_eip_parameters (public_subnet # rest) self =
     (case eip_string_parameter public_subnet of
        Inl e \<Rightarrow> Inl e
      | Inr p \<Rightarrow> declare_eip_parameters rest (add_child (StringParameterC p) self))"

text \<open>Lines 37 to 58: the key and its alias.\<close>

definition self_key :: "engine \<Rightarrow> key" where
  "self_key eng =
     \<lparr>key_construct_id = ''aws-sdk-pandas-key'',
      key_description = ''AWS SDK for pandas Test Key.'',
      policy = \<lparr>statements =
        [\<lparr>sid = Some ''Enable IAM User Permissions'',
          statement_effect = Some ALLOW,
          actions = [''kms:*''],
          principals = [AccountRootPrincipal],
          resources = [''*'']\<rparr>]\<rparr>,
      key_arn = engine_key_arn eng\<rparr>"

definition aws_sdk_pandas_key_alias :: "engine \<Rightarrow> key_alias" where
  "aws_sdk_pandas_key_alias eng =
     \<lparr>alias_construct_id = ''aws-sdk-pandas-key-alias'',
      alias_name = ''alias/aws-sdk-pandas-key'',
      target_key = self_key eng\<rparr>"

text \<open>Lines 59 to 77: the bucket.\<close>

definition self_bucket :: "engine \<Rightarrow> bucket" where
  "self_bucket eng =
     \<lparr>bucket_construct_id = ''aws-sdk-pandas'',
      bucket_block_public_access =
        \<lparr>block_public_acls = True,
         block_public_policy = True,
         ignore_public_acls = True,
         restrict_public_buckets = True\<rparr>,
      lifecycle_rules =
        [\<lparr>rule_id = ''CleaningUp'',
          enabled = True,
          expiration = Days 1,
          abort_incomplete_multipart_upload_after = Days 1\<rparr>],
      versioned = True,
      bucket_name = engine_bucket_name eng\<rparr>"

text \<open>Lines 78 to 97: the role.\<close>

definition glue_data_quality_role :: "engine \<Rightarrow> role" where
  "glue_data_quality_role eng =
     \<lparr>role_construct_id = ''aws-sdk-pandas-glue-data-quality-role'',
      role_name = ''GlueDataQualityRole'',
      assumed_by = ServicePrincipal ''glue.amazonaws.com'',
      managed_policies =
        [from_aws_managed_policy_name ''AmazonS3FullAccess'',
         from_aws_managed_policy_name ''AWSGlueConsoleFullAccess''],
      inline_policies =
        [(''GetDataAccess'',
          \<lparr>statements =
             [\<lparr>sid = None,
               statement_effect = None,
               actions = [''lakeformation:GetDataAccess''],
               principals = [],
               resources = [''*'']\<rparr>]\<rparr>)],
      role_arn = engine_role_arn eng\<rparr>"

text \<open>Lines 98 to 117: the catalog database and the permission grant on it.\<close>

definition glue_db :: "engine \<Rightarrow> database" where
  "glue_db eng =
     \<lparr>database_construct_id = ''aws_sdk_pandas_glue_database'',
      database_name_argument = ''aws_sdk_pandas'',
      location_uri = ''s3://'' @ bucket_name (self_bucket eng),
      database_name = engine_database_name eng\<rparr>"

definition GlueDataQualitytRoleLFPermissions :: "engine \<Rightarrow> cfn_permissions" where
  "GlueDataQualitytRoleLFPermissions eng =
     \<lparr>permissions_construct_id = ''GlueDataQualitytRoleLFPermissions'',
      data_lake_principal_identifier = role_arn (glue_data_quality_role eng),
      resource_table_resource =
        \<lparr>table_database_name = database_name (glue_db eng),
         table_wildcard = []\<rparr>,
      permissions = [''SELECT'', ''ALTER'', ''DESCRIBE'', ''DROP'', ''DELETE'', ''INSERT'']\<rparr>"

text \<open>Lines 118 to 127: the log group and its stream.\<close>

definition aws_sdk_pandas_log_group :: "engine \<Rightarrow> log_group" where
  "aws_sdk_pandas_log_group eng =
     \<lparr>log_group_construct_id = ''aws_sdk_pandas_log_group'',
      retention = ONE_MONTH,
      log_group_name = engine_log_group_name eng\<rparr>"

definition aws_sdk_pandas_log_stream :: "engine \<Rightarrow> log_stream" where
  "aws_sdk_pandas_log_stream eng =
     \<lparr>log_stream_construct_id = ''aws_sdk_pandas_log_stream'',
      stream_log_group = aws_sdk_pandas_log_group eng,
      log_stream_name = engine_log_stream_name eng\<rparr>"

text \<open>
  Lines 128 to 174: the outputs. The four subscripts are evaluated in the order of the
  source, each before the output that uses it is declared.
\<close>

definition declare_outputs :: "engine \<Rightarrow> stack \<Rightarrow> error + stack" where
  "declare_outputs eng self =
     (let self = CfnOutput ''Region'' (region eng) None self;
          self = CfnOutput ''VPC'' (vpc_id (self_vpc eng))
                   (Some ''aws-sdk-pandas-base-VPC'') self
      in case getitem (public_subnets (self_vpc eng)) 0 of
        Inl e \<Rightarrow> Inl e
      | Inr public_subnet_0 \<Rightarrow>
     (let self = CfnOutput ''PublicSubnet1'' (subnet_id public_subnet_0)
                   (Some ''aws-sdk-pandas-base-PublicSubnet1'') self
      in case getitem (public_subnets (self_vpc eng)) 1 of
        Inl e \<Rightarrow> Inl e
      | Inr public_subnet_1 \<Rightarrow>
     (let self = CfnOutput ''PublicSubnet2'' (subnet_id public_subnet_1)
                   (Some ''aws-sdk-pandas-base-PublicSubnet2'') self
      in case getitem (public_subnets (self_vpc eng)) 2 of
        Inl e \<Rightarrow> Inl e
      | Inr public_subnet_2 \<Rightarrow>
     (let self = CfnOutput ''PublicSubnet3'' (subnet_id public_subnet_2)
                   (Some ''aws-sdk-pandas-base-PublicSubnet3'') self
      in case getitem (private_subnets (self_vpc eng)) 0 of
        Inl e \<Rightarrow> Inl e
      | Inr private_subnet_0 \<Rightarrow>
     (let self = CfnOutput ''PrivateSubnet'' (subnet_id private_subnet_0)
                   (Some ''aws-sdk-pandas-base-PrivateSubnet'') self;
          self = CfnOutput ''KmsKeyArn'' (key_arn (self_key eng))
                   (Some ''aws-sdk-pandas-base-KmsKeyArn'') self;
          self = CfnOutput ''BucketName'' (bucket_name (self_bucket eng))
                   (Some ''aws-sdk-pandas-base-BucketName'') self;
          self = CfnOutput ''GlueDatabaseName'' (database_name (glue_db eng)) None self;
          self = CfnOutput ''GlueDataQualityRole''
                   (role_arn (glue_data_quality_role eng)) None self;
          self = CfnOutput ''LogGroupName''
                   (log_group_name (aws_sdk_pandas_log_group eng)) None self;
          self = CfnOutput ''LogStream''
                   (log_stream_name (aws_sdk_pandas_log_stream eng)) None self
      in Inr self)))))"

text \<open>
  \<^verbatim>\<open>BaseStack.__init__\<close>: the declarations above in the order of the source, each
  registered as a child of the stack.
\<close>

definition BaseStack ::
  "engine \<Rightarrow> string \<Rightarrow> string \<Rightarrow> (string \<times> string) list \<Rightarrow> error + stack" where
  "BaseStack eng scope construct_id kwargs =
     (let self = \<lparr>stack_scope = scope, stack_construct_id = construct_id,
                  stack_kwargs = kwargs, children = []\<rparr>;
          self = add_child (VpcC (self_vpc eng)) self
      in case declare_eip_parameters (public_subnets (self_vpc eng)) self of
        Inl e \<Rightarrow> Inl e
      | Inr self \<Rightarrow>
     (let self = add_child (KeyC (self_key eng)) self;
          self = add_child (AliasC (aws_sdk_pandas_key_alias eng)) self;
          self = add_child (BucketC (self_bucket eng)) self;
          self = add_child (RoleC (glue_data_quality_role eng)) self;
          self = add_child (DatabaseC (glue_db eng)) self;
          self = add_child (CfnPermissionsC (GlueDataQualitytRoleLFPermissions eng)) self;
          self = add_child (LogGroupC (aws_sdk_pandas_log_group eng)) self;
          self = add_child (LogStreamC (aws_sdk_pandas_log_stream eng)) self
      in declare_outputs eng self))"

section \<open>The stack under its scope\<close>




section \<open>Reading the declared graph\<close>

text \<open>The children of one kind, in the order of their declaration.\<close>

fun vpcs :: "construct list \<Rightarrow> vpc list" where
  "vpcs [] = []"
| "vpcs (VpcC v # cs) = v # vpcs cs"
| "vpcs (_ # cs) = vpcs cs"

fun string_parameters :: "construct list \<Rightarrow> string_parameter list" where
  "string_parameters [] = []"
| "string_parameters (StringParameterC p # cs) = p # string_parameters cs"
| "string_parameters (_ # cs) = string_parameters cs"

fun buckets :: "construct list \<Rightarrow> bucket list" where
  "buckets [] = []"
| "buckets (BucketC b # cs) = b # buckets cs"
| "buckets (_ # cs) = buckets cs"

fun roles :: "construct list \<Rightarrow> role list" where
  "roles [] = []"
| "roles (RoleC r # cs) = r # roles cs"
| "roles (_ # cs) = roles cs"

fun databases :: "construct list \<Rightarrow> database list" where
  "databases [] = []"
| "databases (DatabaseC d # cs) = d # databases cs"
| "databases (_ # cs) = databases cs"

fun permission_grants :: "construct list \<Rightarrow> cfn_permissions list" where
  "permission_grants [] = []"
| "permission_grants (CfnPermissionsC g # cs) = g # permission_grants cs"
| "permission_grants (_ # cs) = permission_grants cs"

fun log_groups :: "construct list \<Rightarrow> log_group list" where
  "log_groups [] = []"
| "log_groups (LogGroupC g # cs) = g # log_groups cs"
| "log_groups (_ # cs) = log_groups cs"

fun log_streams :: "construct list \<Rightarrow> log_stream list" where
  "log_streams [] = []"
| "log_streams (LogStreamC s # cs) = s # log_streams cs"
| "log_streams (_ # cs) = log_streams cs"

fun outputs :: "construct list \<Rightarrow> cfn_output list" where
  "outputs [] = []"
| "outputs (CfnOutputC out # cs) = out # outputs cs"
| "outputs (_ # cs) = outputs cs"

fun keys_of :: "construct list \<Rightarrow> key list" where
  "keys_of [] = []"
| "keys_of (KeyC k # cs) = k # keys_of cs"
| "keys_of (_ # cs) = keys_of cs"

section \<open>Two networks the framework can derive\<close>

text \<open>
  With three availability zones the network construct allocates three public and three
  private subnets, and every public subnet owns a NAT gateway with its elastic IP.
\<close>

definition three_az_engine :: engine where
  "three_az_engine =
     \<lparr>region = ''us-east-1'',
      engine_vpc_id = ''vpc-0a1'',
      engine_public_subnets =
        [\<lparr>node_id = ''PublicSubnet1'', subnet_id = ''subnet-a1'',
          node_children = [(''Subnet'', ''subnet-a1''), (''RouteTable'', ''rtb-a1''),
                           (''EIP'', ''eipalloc-1''), (''NATGateway'', ''nat-1'')]\<rparr>,
         \<lparr>node_id = ''PublicSubnet2'', subnet_id = ''subnet-a2'',
          node_children = [(''Subnet'', ''subnet-a2''), (''RouteTable'', ''rtb-a2''),
                           (''EIP'', ''eipalloc-2''), (''NATGateway'', ''nat-2'')]\<rparr>,
         \<lparr>node_id = ''PublicSubnet3'', subnet_id = ''subnet-a3'',
          node_children = [(''Subnet'', ''subnet-a3''), (''RouteTable'', ''rtb-a3''),
                           (''EIP'', ''eipalloc-3''), (''NATGateway'', ''nat-3'')]\<rparr>],
      engine_private_subnets =
        [\<lparr>node_id = ''PrivateSubnet1'', subnet_id = ''subnet-b1'',
          node_children = [(''Subnet'', ''subnet-b1''), (''RouteTable'', ''rtb-b1'')]\<rparr>,
         \<lparr>node_id = ''PrivateSubnet2'', subnet_id = ''subnet-b2'',
          node_children = [(''Subnet'', ''subnet-b2''), (''RouteTable'', ''rtb-b2'')]\<rparr>,
         \<lparr>node_id = ''PrivateSubnet3'', subnet_id = ''subnet-b3'',
          node_children = [(''Subnet'', ''subnet-b3''), (''RouteTable'', ''rtb-b3'')]\<rparr>],
      engine_key_arn = ''arn:aws:kms:us-east-1:111122223333:key/k1'',
      engine_bucket_name = ''aws-sdk-pandas-bucket-1'',
      engine_role_arn = ''arn:aws:iam::111122223333:role/GlueDataQualityRole'',
      engine_database_name = ''aws_sdk_pandas'',
      engine_log_group_name = ''log-group-1'',
      engine_log_stream_name = ''log-stream-1''\<rparr>"

text \<open>With two availability zones there are two subnets of each kind.\<close>

definition two_az_engine :: engine where
  "two_az_engine =
     three_az_engine
       \<lparr>engine_public_subnets := take 2 (engine_public_subnets three_az_engine),
        engine_private_subnets := take 2 (engine_private_subnets three_az_engine)\<rparr>"

text \<open>The stack built over the three-zone network, when the constructor returns.\<close>

definition three_az_stack :: stack where
  "three_az_stack = projr (BaseStack three_az_engine ''App'' ''aws-sdk-pandas-base'' [])"


section \<open>What the stages of the constructor leave behind\<close>

lemma self_vpc_subnets:
  "public_subnets (self_vpc eng) = engine_public_subnets eng"
  "private_subnets (self_vpc eng) = engine_private_subnets eng"
  by (simp_all add: self_vpc_def Let_def)

lemma find_child_Inr_iff:
  "(\<exists>ref. find_child s child_id = Inr ref) \<longleftrightarrow> child_id \<in> fst ` set (node_children s)"
proof (cases "map_of (node_children s) child_id")
  case None
  then have "child_id \<notin> fst ` set (node_children s)"
    by (simp add: map_of_eq_None_iff)
  with None show ?thesis
    by (simp add: find_child_def)
next
  case (Some ref)
  then have "child_id \<in> fst ` set (node_children s)"
    by (metis map_of_eq_None_iff option.distinct(1))
  with Some show ?thesis
    by (simp add: find_child_def)
qed

lemma eip_string_parameter_Inr_iff:
  "(\<exists>p. eip_string_parameter s = Inr p) \<longleftrightarrow> ''EIP'' \<in> fst ` set (node_children s)"
proof -
  have "(\<exists>p. eip_string_parameter s = Inr p) \<longleftrightarrow> (\<exists>ref. find_child s ''EIP'' = Inr ref)"
    by (cases "find_child s ''EIP''") (simp_all add: eip_string_parameter_def)
  then show ?thesis
    by (simp only: find_child_Inr_iff)
qed

text \<open>
  The loop appends one parameter per subnet, in order, and changes nothing else; it
  returns only if every subnet has the child.
\<close>

lemma declare_eip_parameters_Inr:
  "declare_eip_parameters ss self = Inr self' \<Longrightarrow>
     \<exists>ps. list_all2 (\<lambda>s p. eip_string_parameter s = Inr p) ss ps
        \<and> self' = self\<lparr>children := children self @ map StringParameterC ps\<rparr>"
proof (induction ss arbitrary: self)
  case Nil
  then show ?case by simp
next
  case (Cons s ss)
  from Cons.prems obtain p where p: "eip_string_parameter s = Inr p"
    and rest: "declare_eip_parameters ss (add_child (StringParameterC p) self) = Inr self'"
    by (auto split: sum.splits)
  from Cons.IH [OF rest] obtain ps where
    ps: "list_all2 (\<lambda>s p. eip_string_parameter s = Inr p) ss ps"
    and eq: "self' = (add_child (StringParameterC p) self)\<lparr>children :=
               children (add_child (StringParameterC p) self) @ map StringParameterC ps\<rparr>"
    by blast
  have "list_all2 (\<lambda>s p. eip_string_parameter s = Inr p) (s # ss) (p # ps)"
    using p ps by simp
  moreover have "self' = self\<lparr>children := children self @ map StringParameterC (p # ps)\<rparr>"
    using eq by (simp add: add_child_def)
  ultimately show ?case by blast
qed

lemma declare_eip_parameters_returns:
  "(\<exists>self'. declare_eip_parameters ss self = Inr self')
     \<longleftrightarrow> (\<forall>s \<in> set ss. ''EIP'' \<in> fst ` set (node_children s))"
proof (induction ss arbitrary: self)
  case Nil
  show ?case by simp
next
  case (Cons s ss)
  show ?case
  proof (cases "eip_string_parameter s")
    case (Inl e)
    then have "''EIP'' \<notin> fst ` set (node_children s)"
      using eip_string_parameter_Inr_iff [of s] by simp
    with Inl show ?thesis by simp
  next
    case (Inr p)
    then have "''EIP'' \<in> fst ` set (node_children s)"
      using eip_string_parameter_Inr_iff [of s] by simp
    with Inr Cons.IH [of "add_child (StringParameterC p) self"] show ?thesis by simp
  qed
qed

text \<open>The outputs: the twelve records, appended in the order of the source.\<close>

lemma declare_outputs_Inr:
  assumes "declare_outputs eng self = Inr self'"
  shows "children self' = children self @ map CfnOutputC
      [\<lparr>output_construct_id = ''Region'', output_value = region eng, export_name = None\<rparr>,
       \<lparr>output_construct_id = ''VPC'', output_value = vpc_id (self_vpc eng),
        export_name = Some ''aws-sdk-pandas-base-VPC''\<rparr>,
       \<lparr>output_construct_id = ''PublicSubnet1'',
        output_value = subnet_id (public_subnets (self_vpc eng) ! 0),
        export_name = Some ''aws-sdk-pandas-base-PublicSubnet1''\<rparr>,
       \<lparr>output_construct_id = ''PublicSubnet2'',
        output_value = subnet_id (public_subnets (self_vpc eng) ! 1),
        export_name = Some ''aws-sdk-pandas-base-PublicSubnet2''\<rparr>,
       \<lparr>output_construct_id = ''PublicSubnet3'',
        output_value = subnet_id (public_subnets (self_vpc eng) ! 2),
        export_name = Some ''aws-sdk-pandas-base-PublicSubnet3''\<rparr>,
       \<lparr>output_construct_id = ''PrivateSubnet'',
        output_value = subnet_id (private_subnets (self_vpc eng) ! 0),
        export_name = Some ''aws-sdk-pandas-base-PrivateSubnet''\<rparr>,
       \<lparr>output_construct_id = ''KmsKeyArn'', output_value = key_arn (self_key eng),
        export_name = Some ''aws-sdk-pandas-base-KmsKeyArn''\<rparr>,
       \<lparr>output_construct_id = ''BucketName'', output_value = bucket_name (self_bucket eng),
        export_name = Some ''aws-sdk-pandas-base-BucketName''\<rparr>,
       \<lparr>output_construct_id = ''GlueDatabaseName'',
        output_value = database_name (glue_db eng), export_name = None\<rparr>,
       \<lparr>output_construct_id = ''GlueDataQualityRole'',
        output_value = role_arn (glue_data_quality_role eng), export_name = None\<rparr>,
       \<lparr>output_construct_id = ''LogGroupName'',
        output_value = log_group_name (aws_sdk_pandas_log_group eng), export_name = None\<rparr>,
       \<lparr>output_construct_id = ''LogStream'',
        output_value = log_stream_name (aws_sdk_pandas_log_stream eng),
        export_name = None\<rparr>]"
    (is "_ = _ @ map CfnOutputC ?outs")
proof -
  let ?pub = "public_subnets (self_vpc eng)" and ?priv = "private_subnets (self_vpc eng)"
  have len: "2 < length ?pub \<and> 0 < length ?priv"
    using assms unfolding declare_outputs_def Let_def getitem_def
    by (simp split: if_splits)
  then have g: "getitem ?pub 0 = Inr (?pub ! 0)" "getitem ?pub 1 = Inr (?pub ! 1)"
     "getitem ?pub 2 = Inr (?pub ! 2)" "getitem ?priv 0 = Inr (?priv ! 0)"
    by (auto simp: getitem_def)
  have "Inr self' = declare_outputs eng self"
    using assms by simp
  also have "\<dots> = Inr (self\<lparr>children := children self @ map CfnOutputC ?outs\<rparr>)"
    unfolding declare_outputs_def Let_def g
    by (simp add: CfnOutput_def add_child_def)
  finally have eq: "self' = self\<lparr>children := children self @ map CfnOutputC ?outs\<rparr>"
    by simp
  show ?thesis
    unfolding eq by simp
qed

lemma declare_outputs_returns:
  "(\<exists>self'. declare_outputs eng self = Inr self')
     \<longleftrightarrow> 2 < length (engine_public_subnets eng) \<and> 0 < length (engine_private_subnets eng)"
  unfolding declare_outputs_def Let_def getitem_def self_vpc_subnets
  by auto

text \<open>
  The constructor as a whole: when it returns, the children of the stack are the network,
  one parameter per public subnet, the eight fixed constructs, and what the outputs add.
\<close>

lemma BaseStack_Inr:
  assumes "BaseStack eng scope construct_id kwargs = Inr st"
  shows "\<exists>ps self. list_all2 (\<lambda>s p. eip_string_parameter s = Inr p)
                     (engine_public_subnets eng) ps
     \<and> children self = VpcC (self_vpc eng) # map StringParameterC ps @
         [KeyC (self_key eng), AliasC (aws_sdk_pandas_key_alias eng),
          BucketC (self_bucket eng), RoleC (glue_data_quality_role eng),
          DatabaseC (glue_db eng),
          CfnPermissionsC (GlueDataQualitytRoleLFPermissions eng),
          LogGroupC (aws_sdk_pandas_log_group eng),
          LogStreamC (aws_sdk_pandas_log_stream eng)]
     \<and> declare_outputs eng self = Inr st"
proof -
  let ?self0 = "add_child (VpcC (self_vpc eng))
     \<lparr>stack_scope = scope, stack_construct_id = construct_id,
      stack_kwargs = kwargs, children = []\<rparr>"
  from assms obtain self1 where
    loop: "declare_eip_parameters (engine_public_subnets eng) ?self0 = Inr self1"
    unfolding BaseStack_def Let_def self_vpc_subnets
    by (cases "declare_eip_parameters (engine_public_subnets eng) ?self0") simp_all
  from declare_eip_parameters_Inr [OF loop] obtain ps where
    ps: "list_all2 (\<lambda>s p. eip_string_parameter s = Inr p) (engine_public_subnets eng) ps"
    and self1: "self1 = ?self0\<lparr>children := children ?self0 @ map StringParameterC ps\<rparr>"
    by blast
  let ?self2 = "add_child (LogStreamC (aws_sdk_pandas_log_stream eng))
    (add_child (LogGroupC (aws_sdk_pandas_log_group eng))
    (add_child (CfnPermissionsC (GlueDataQualitytRoleLFPermissions eng))
    (add_child (DatabaseC (glue_db eng))
    (add_child (RoleC (glue_data_quality_role eng))
    (add_child (BucketC (self_bucket eng))
    (add_child (AliasC (aws_sdk_pandas_key_alias eng))
    (add_child (KeyC (self_key eng)) self1)))))))"
  have "declare_outputs eng ?self2 = Inr st"
    using assms loop unfolding BaseStack_def Let_def self_vpc_subnets by simp
  moreover have "children ?self2 = VpcC (self_vpc eng) # map StringParameterC ps @
         [KeyC (self_key eng), AliasC (aws_sdk_pandas_key_alias eng),
          BucketC (self_bucket eng), RoleC (glue_data_quality_role eng),
          DatabaseC (glue_db eng),
          CfnPermissionsC (GlueDataQualitytRoleLFPermissions eng),
          LogGroupC (aws_sdk_pandas_log_group eng),
          LogStreamC (aws_sdk_pandas_log_stream eng)]"
    unfolding self1 by (simp add: add_child_def)
  ultimately show ?thesis using ps by blast
qed

lemma BaseStack_returns:
  "(\<exists>st. BaseStack eng scope construct_id kwargs = Inr st)
     \<longleftrightarrow> (\<forall>s \<in> set (engine_public_subnets eng). ''EIP'' \<in> fst ` set (node_children s))
       \<and> 2 < length (engine_public_subnets eng) \<and> 0 < length (engine_private_subnets eng)"
proof -
  let ?self0 = "add_child (VpcC (self_vpc eng))
     \<lparr>stack_scope = scope, stack_construct_id = construct_id,
      stack_kwargs = kwargs, children = []\<rparr>"
  show ?thesis
  proof (cases "declare_eip_parameters (engine_public_subnets eng) ?self0")
    case (Inl e)
    then have "\<not> (\<forall>s \<in> set (engine_public_subnets eng). ''EIP'' \<in> fst ` set (node_children s))"
      using declare_eip_parameters_returns [of "engine_public_subnets eng" ?self0] by simp
    moreover have "BaseStack eng scope construct_id kwargs = Inl e"
      using Inl unfolding BaseStack_def Let_def self_vpc_subnets by simp
    ultimately show ?thesis by simp
  next
    case (Inr self1)
    then have "\<forall>s \<in> set (engine_public_subnets eng). ''EIP'' \<in> fst ` set (node_children s)"
      using declare_eip_parameters_returns [of "engine_public_subnets eng" ?self0] by simp
    moreover obtain self2 where
      "BaseStack eng scope construct_id kwargs = declare_outputs eng self2"
      using Inr unfolding BaseStack_def Let_def self_vpc_subnets by auto
    ultimately show ?thesis
      by (simp add: declare_outputs_returns [of eng self2])
  qed
qed

text \<open>Reading one kind of construct off a list of children.\<close>

lemma kind_append:
  "vpcs (cs @ ds) = vpcs cs @ vpcs ds"
  "keys_of (cs @ ds) = keys_of cs @ keys_of ds"
  "string_parameters (cs @ ds) = string_parameters cs @ string_parameters ds"
  "buckets (cs @ ds) = buckets cs @ buckets ds"
  "roles (cs @ ds) = roles cs @ roles ds"
  "databases (cs @ ds) = databases cs @ databases ds"
  "permission_grants (cs @ ds) = permission_grants cs @ permission_grants ds"
  "log_groups (cs @ ds) = log_groups cs @ log_groups ds"
  "log_streams (cs @ ds) = log_streams cs @ log_streams ds"
  "outputs (cs @ ds) = outputs cs @ outputs ds"
  by (induction cs rule: vpcs.induct) simp_all

lemma kind_of_parameters:
  "vpcs (map StringParameterC ps) = []"
  "keys_of (map StringParameterC ps) = []"
  "string_parameters (map StringParameterC ps) = ps"
  "buckets (map StringParameterC ps) = []"
  "roles (map StringParameterC ps) = []"
  "databases (map StringParameterC ps) = []"
  "permission_grants (map StringParameterC ps) = []"
  "log_groups (map StringParameterC ps) = []"
  "log_streams (map StringParameterC ps) = []"
  "outputs (map StringParameterC ps) = []"
  by (induction ps) simp_all

lemma kind_of_outputs:
  "vpcs (map CfnOutputC outs) = []"
  "keys_of (map CfnOutputC outs) = []"
  "string_parameters (map CfnOutputC outs) = []"
  "buckets (map CfnOutputC outs) = []"
  "roles (map CfnOutputC outs) = []"
  "databases (map CfnOutputC outs) = []"
  "permission_grants (map CfnOutputC outs) = []"
  "log_groups (map CfnOutputC outs) = []"
  "log_streams (map CfnOutputC outs) = []"
  "outputs (map CfnOutputC outs) = outs"
  by (induction outs) simp_all

text \<open>
  The children of the stack the constructor returns, with the outputs left abstract: for
  the claims that do not look at them.
\<close>

lemma BaseStack_children:
  assumes "BaseStack eng scope construct_id kwargs = Inr st"
  obtains ps outs where
    "list_all2 (\<lambda>s p. eip_string_parameter s = Inr p) (engine_public_subnets eng) ps"
    "children st = (VpcC (self_vpc eng) # map StringParameterC ps @
         [KeyC (self_key eng), AliasC (aws_sdk_pandas_key_alias eng),
          BucketC (self_bucket eng), RoleC (glue_data_quality_role eng),
          DatabaseC (glue_db eng),
          CfnPermissionsC (GlueDataQualitytRoleLFPermissions eng),
          LogGroupC (aws_sdk_pandas_log_group eng),
          LogStreamC (aws_sdk_pandas_log_stream eng)]) @ map CfnOutputC outs"
proof -
  from BaseStack_Inr [OF assms] obtain ps self where
    ps: "list_all2 (\<lambda>s p. eip_string_parameter s = Inr p) (engine_public_subnets eng) ps"
    and c: "children self = VpcC (self_vpc eng) # map StringParameterC ps @
         [KeyC (self_key eng), AliasC (aws_sdk_pandas_key_alias eng),
          BucketC (self_bucket eng), RoleC (glue_data_quality_role eng),
          DatabaseC (glue_db eng),
          CfnPermissionsC (GlueDataQualitytRoleLFPermissions eng),
          LogGroupC (aws_sdk_pandas_log_group eng),
          LogStreamC (aws_sdk_pandas_log_stream eng)]"
    and out: "declare_outputs eng self = Inr st"
    by blast
  show thesis
    by (rule that [OF ps]) (simp only: declare_outputs_Inr [OF out] c)
qed

lemma BaseStack_kinds:
  assumes "BaseStack eng scope construct_id kwargs = Inr st"
  shows "vpcs (children st) = [self_vpc eng]"
    and "keys_of (children st) = [self_key eng]"
    and "buckets (children st) = [self_bucket eng]"
    and "roles (children st) = [glue_data_quality_role eng]"
    and "databases (children st) = [glue_db eng]"
    and "permission_grants (children st) = [GlueDataQualitytRoleLFPermissions eng]"
    and "log_groups (children st) = [aws_sdk_pandas_log_group eng]"
    and "log_streams (children st) = [aws_sdk_pandas_log_stream eng]"
proof -
  from assms obtain ps outs where
    c: "children st = (VpcC (self_vpc eng) # map StringParameterC ps @
         [KeyC (self_key eng), AliasC (aws_sdk_pandas_key_alias eng),
          BucketC (self_bucket eng), RoleC (glue_data_quality_role eng),
          DatabaseC (glue_db eng),
          CfnPermissionsC (GlueDataQualitytRoleLFPermissions eng),
          LogGroupC (aws_sdk_pandas_log_group eng),
          LogStreamC (aws_sdk_pandas_log_stream eng)]) @ map CfnOutputC outs"
    by (rule BaseStack_children)
  show "vpcs (children st) = [self_vpc eng]"
    and "keys_of (children st) = [self_key eng]"
    and "buckets (children st) = [self_bucket eng]"
    and "roles (children st) = [glue_data_quality_role eng]"
    and "databases (children st) = [glue_db eng]"
    and "permission_grants (children st) = [GlueDataQualitytRoleLFPermissions eng]"
    and "log_groups (children st) = [aws_sdk_pandas_log_group eng]"
    and "log_streams (children st) = [aws_sdk_pandas_log_stream eng]"
    unfolding c by (simp_all add: kind_append kind_of_parameters kind_of_outputs)
qed

lemma BaseStack_string_parameters:
  assumes "BaseStack eng scope construct_id kwargs = Inr st"
  shows "list_all2 (\<lambda>s p. eip_string_parameter s = Inr p)
           (engine_public_subnets eng) (string_parameters (children st))"
proof -
  from assms obtain ps outs where
    ps: "list_all2 (\<lambda>s p. eip_string_parameter s = Inr p) (engine_public_subnets eng) ps"
    and c: "children st = (VpcC (self_vpc eng) # map StringParameterC ps @
         [KeyC (self_key eng), AliasC (aws_sdk_pandas_key_alias eng),
          BucketC (self_bucket eng), RoleC (glue_data_quality_role eng),
          DatabaseC (glue_db eng),
          CfnPermissionsC (GlueDataQualitytRoleLFPermissions eng),
          LogGroupC (aws_sdk_pandas_log_group eng),
          LogStreamC (aws_sdk_pandas_log_stream eng)]) @ map CfnOutputC outs"
    by (rule BaseStack_children)
  have "string_parameters (children st) = ps"
    unfolding c by (simp add: kind_append kind_of_parameters kind_of_outputs)
  with ps show ?thesis by simp
qed

lemma BaseStack_outputs:
  assumes "BaseStack eng scope construct_id kwargs = Inr st"
  shows "outputs (children st) =
      [\<lparr>output_construct_id = ''Region'', output_value = region eng, export_name = None\<rparr>,
       \<lparr>output_construct_id = ''VPC'', output_value = vpc_id (self_vpc eng),
        export_name = Some ''aws-sdk-pandas-base-VPC''\<rparr>,
       \<lparr>output_construct_id = ''PublicSubnet1'',
        output_value = subnet_id (public_subnets (self_vpc eng) ! 0),
        export_name = Some ''aws-sdk-pandas-base-PublicSubnet1''\<rparr>,
       \<lparr>output_construct_id = ''PublicSubnet2'',
        output_value = subnet_id (public_subnets (self_vpc eng) ! 1),
        export_name = Some ''aws-sdk-pandas-base-PublicSubnet2''\<rparr>,
       \<lparr>output_construct_id = ''PublicSubnet3'',
        output_value = subnet_id (public_subnets (self_vpc eng) ! 2),
        export_name = Some ''aws-sdk-pandas-base-PublicSubnet3''\<rparr>,
       \<lparr>output_construct_id = ''PrivateSubnet'',
        output_value = subnet_id (private_subnets (self_vpc eng) ! 0),
        export_name = Some ''aws-sdk-pandas-base-PrivateSubnet''\<rparr>,
       \<lparr>output_construct_id = ''KmsKeyArn'', output_value = key_arn (self_key eng),
        export_name = Some ''aws-sdk-pandas-base-KmsKeyArn''\<rparr>,
       \<lparr>output_construct_id = ''BucketName'', output_value = bucket_name (self_bucket eng),
        export_name = Some ''aws-sdk-pandas-base-BucketName''\<rparr>,
       \<lparr>output_construct_id = ''GlueDatabaseName'',
        output_value = database_name (glue_db eng), export_name = None\<rparr>,
       \<lparr>output_construct_id = ''GlueDataQualityRole'',
        output_value = role_arn (glue_data_quality_role eng), export_name = None\<rparr>,
       \<lparr>output_construct_id = ''LogGroupName'',
        output_value = log_group_name (aws_sdk_pandas_log_group eng), export_name = None\<rparr>,
       \<lparr>output_construct_id = ''LogStream'',
        output_value = log_stream_name (aws_sdk_pandas_log_stream eng),
        export_name = None\<rparr>]"
proof -
  from BaseStack_Inr [OF assms] obtain ps self where
    c: "children self = VpcC (self_vpc eng) # map StringParameterC ps @
         [KeyC (self_key eng), AliasC (aws_sdk_pandas_key_alias eng),
          BucketC (self_bucket eng), RoleC (glue_data_quality_role eng),
          DatabaseC (glue_db eng),
          CfnPermissionsC (GlueDataQualitytRoleLFPermissions eng),
          LogGroupC (aws_sdk_pandas_log_group eng),
          LogStreamC (aws_sdk_pandas_log_stream eng)]"
    and out: "declare_outputs eng self = Inr st"
    by blast
  have before: "outputs (children self) = []"
    unfolding c by (simp add: kind_append kind_of_parameters)
  show ?thesis
    by (simp only: declare_outputs_Inr [OF out] kind_append kind_of_outputs before append_Nil)
qed

text \<open>The constructor returns on the three-zone network and raises on the two-zone one.\<close>

lemma three_az_returns:
  "BaseStack three_az_engine scope construct_id kwargs =
     Inr (projr (BaseStack three_az_engine scope construct_id kwargs))"
proof -
  have "\<forall>s \<in> set (engine_public_subnets three_az_engine).
          ''EIP'' \<in> fst ` set (node_children s)"
    by (simp add: three_az_engine_def)
  moreover have "2 < length (engine_public_subnets three_az_engine)"
    and "0 < length (engine_private_subnets three_az_engine)"
    by (simp_all add: three_az_engine_def)
  ultimately obtain st where
    "BaseStack three_az_engine scope construct_id kwargs = Inr st"
    using BaseStack_returns [of three_az_engine scope construct_id kwargs]
    by blast
  then show ?thesis
    by simp
qed

lemma three_az_constructs:
  "BaseStack three_az_engine ''App'' ''aws-sdk-pandas-base'' [] = Inr three_az_stack"
  unfolding three_az_stack_def by (rule three_az_returns)

lemma two_az_raises:
  "BaseStack two_az_engine ''App'' ''aws-sdk-pandas-base'' [] = Inl IndexError"
  by (simp add: BaseStack_def declare_outputs_def CfnOutput_def add_child_def getitem_def
      self_vpc_def two_az_engine_def three_az_engine_def eip_string_parameter_def
      find_child_def Let_def)






section \<open>The claims\<close>

text \<open>
  C1, as the spec states it: the stack declares eleven outputs. The constructor declares
  one more, the region, so on the three-zone network the count is not eleven.
\<close>

theorem output_count_counterexample:
  "BaseStack three_az_engine ''App'' ''aws-sdk-pandas-base'' [] = Inr three_az_stack
   \<and> length (outputs (children three_az_stack)) \<noteq> 11"
  using three_az_constructs BaseStack_outputs [OF three_az_constructs] by simp

text \<open>
  C1, amended. Whenever the constructor returns, the stack has twelve outputs: the region,
  the network id, the three public subnet ids, the private subnet id, the key ARN, the
  bucket name, the database name, the role ARN, the log group name and the log stream
  name, declared in this order. The count does not depend on the engine context, the
  scope, the id or the configuration map.
\<close>

theorem twelve_outputs:
  assumes "BaseStack eng scope construct_id kwargs = Inr st"
  shows "map output_construct_id (outputs (children st)) =
           [''Region'', ''VPC'', ''PublicSubnet1'', ''PublicSubnet2'', ''PublicSubnet3'',
            ''PrivateSubnet'', ''KmsKeyArn'', ''BucketName'', ''GlueDatabaseName'',
            ''GlueDataQualityRole'', ''LogGroupName'', ''LogStream'']
         \<and> length (outputs (children st)) = 12"
  unfolding BaseStack_outputs [OF assms] by simp

theorem twelve_outputs_witness:
  "BaseStack three_az_engine ''App'' ''aws-sdk-pandas-base'' [] = Inr three_az_stack
   \<and> map output_construct_id (outputs (children three_az_stack)) =
           [''Region'', ''VPC'', ''PublicSubnet1'', ''PublicSubnet2'', ''PublicSubnet3'',
            ''PrivateSubnet'', ''KmsKeyArn'', ''BucketName'', ''GlueDatabaseName'',
            ''GlueDataQualityRole'', ''LogGroupName'', ''LogStream'']
   \<and> length (outputs (children three_az_stack)) = 12"
  using three_az_constructs twelve_outputs [OF three_az_constructs] by blast

text \<open>
  C2. Whenever the constructor returns, the stack has exactly one permission grant. Its
  principal is the ARN of the one role of the stack, the data-quality role; its resource
  is the table resource of the one catalog database of the stack with the (empty)
  all-tables wildcard; its list of actions is SELECT, ALTER, DESCRIBE, DROP, DELETE,
  INSERT, so the set of its actions is exactly these six.
\<close>

theorem permission_grant:
  assumes "BaseStack eng scope construct_id kwargs = Inr st"
  shows "\<exists>r d. roles (children st) = [r] \<and> role_name r = ''GlueDataQualityRole''
           \<and> databases (children st) = [d]
           \<and> permission_grants (children st) =
               [\<lparr>permissions_construct_id = ''GlueDataQualitytRoleLFPermissions'',
                 data_lake_principal_identifier = role_arn r,
                 resource_table_resource =
                   \<lparr>table_database_name = database_name d, table_wildcard = []\<rparr>,
                 permissions =
                   [''SELECT'', ''ALTER'', ''DESCRIBE'', ''DROP'', ''DELETE'', ''INSERT'']\<rparr>]
           \<and> map (\<lambda>g. set (permissions g)) (permission_grants (children st)) =
               [{''SELECT'', ''ALTER'', ''DESCRIBE'', ''DROP'', ''DELETE'', ''INSERT''}]"
proof -
  have "role_name (glue_data_quality_role eng) = ''GlueDataQualityRole''"
    by (simp add: glue_data_quality_role_def)
  moreover have "GlueDataQualitytRoleLFPermissions eng =
      \<lparr>permissions_construct_id = ''GlueDataQualitytRoleLFPermissions'',
       data_lake_principal_identifier = role_arn (glue_data_quality_role eng),
       resource_table_resource =
         \<lparr>table_database_name = database_name (glue_db eng), table_wildcard = []\<rparr>,
       permissions = [''SELECT'', ''ALTER'', ''DESCRIBE'', ''DROP'', ''DELETE'', ''INSERT'']\<rparr>"
    by (simp add: GlueDataQualitytRoleLFPermissions_def)
  ultimately show ?thesis
    using BaseStack_kinds(4,5,6) [OF assms] by simp
qed

theorem permission_grant_witness:
  "BaseStack three_az_engine ''App'' ''aws-sdk-pandas-base'' [] = Inr three_az_stack
   \<and> (\<exists>r d. roles (children three_az_stack) = [r] \<and> role_name r = ''GlueDataQualityRole''
           \<and> databases (children three_az_stack) = [d]
           \<and> permission_grants (children three_az_stack) =
               [\<lparr>permissions_construct_id = ''GlueDataQualitytRoleLFPermissions'',
                 data_lake_principal_identifier = role_arn r,
                 resource_table_resource =
                   \<lparr>table_database_name = database_name d, table_wildcard = []\<rparr>,
                 permissions =
                   [''SELECT'', ''ALTER'', ''DESCRIBE'', ''DROP'', ''DELETE'', ''INSERT'']\<rparr>]
           \<and> map (\<lambda>g. set (permissions g)) (permission_grants (children three_az_stack)) =
               [{''SELECT'', ''ALTER'', ''DESCRIBE'', ''DROP'', ''DELETE'', ''INSERT''}])"
  using three_az_constructs permission_grant [OF three_az_constructs] by blast

text \<open>
  C3. Whenever the constructor returns, whatever the configuration map, the stack has
  exactly one bucket and the bucket has exactly one lifecycle rule: enabled, expiring
  objects after 1 day and aborting incomplete multipart uploads after 1 day.
\<close>

theorem bucket_lifecycle:
  assumes "BaseStack eng scope construct_id kwargs = Inr st"
  shows "map lifecycle_rules (buckets (children st)) =
           [[\<lparr>rule_id = ''CleaningUp'', enabled = True, expiration = Days 1,
              abort_incomplete_multipart_upload_after = Days 1\<rparr>]]"
  unfolding BaseStack_kinds(3) [OF assms]
  by (simp add: self_bucket_def)

theorem bucket_lifecycle_witness:
  "BaseStack three_az_engine ''App'' ''aws-sdk-pandas-base'' [(''description'', ''test'')]
     = Inr (projr (BaseStack three_az_engine ''App'' ''aws-sdk-pandas-base''
                     [(''description'', ''test'')]))
   \<and> map lifecycle_rules (buckets (children
         (projr (BaseStack three_az_engine ''App'' ''aws-sdk-pandas-base''
                   [(''description'', ''test'')])))) =
           [[\<lparr>rule_id = ''CleaningUp'', enabled = True, expiration = Days 1,
              abort_incomplete_multipart_upload_after = Days 1\<rparr>]]"
  using three_az_returns bucket_lifecycle [OF three_az_returns] by blast

text \<open>
  C4. Whenever the constructor returns, the stack has exactly one network among its
  children; its CIDR block is 11.19.224.0/19 and both its DNS-hostnames flag and its
  DNS-support flag are enabled.
\<close>

theorem network_declared_once:
  assumes "BaseStack eng scope construct_id kwargs = Inr st"
  shows "map (\<lambda>v. (cidr v, enable_dns_hostnames v, enable_dns_support v)) (vpcs (children st))
           = [(''11.19.224.0/19'', True, True)]"
  unfolding BaseStack_kinds(1) [OF assms]
  by (simp add: self_vpc_def Let_def)

theorem network_declared_once_witness:
  "BaseStack three_az_engine ''App'' ''aws-sdk-pandas-base'' [] = Inr three_az_stack
   \<and> map (\<lambda>v. (cidr v, enable_dns_hostnames v, enable_dns_support v))
         (vpcs (children three_az_stack)) = [(''11.19.224.0/19'', True, True)]"
  using three_az_constructs network_declared_once [OF three_az_constructs] by simp

text \<open>
  C5. Whenever the constructor returns, the string parameters of the stack correspond one
  to one, in order, to the public subnets of its network: there are as many parameters
  as public subnets, and the parameter of a subnet has the \<^verbatim>\<open>ref\<close> of the subnet's
  \<^verbatim>\<open>EIP\<close> child as its value and a name and a construct id built from the node id
  of the subnet. No parameter is left over for any other subnet.
\<close>

theorem eip_parameters:
  assumes "BaseStack eng scope construct_id kwargs = Inr st"
  shows "\<exists>v. vpcs (children st) = [v]
           \<and> length (string_parameters (children st)) = length (public_subnets v)
           \<and> list_all2
               (\<lambda>s p. find_child s ''EIP'' = Inr (string_value p)
                    \<and> parameter_name p = ''/SDKPandas/VPC/'' @ node_id s @ ''/EIP''
                    \<and> parameter_construct_id p = node_id s @ '' EIP SSM'')
               (public_subnets v) (string_parameters (children st))"
proof -
  have step: "eip_string_parameter s = Inr p \<Longrightarrow>
      find_child s ''EIP'' = Inr (string_value p)
      \<and> parameter_name p = ''/SDKPandas/VPC/'' @ node_id s @ ''/EIP''
      \<and> parameter_construct_id p = node_id s @ '' EIP SSM''" for s p
    by (cases "find_child s ''EIP''") (auto simp: eip_string_parameter_def)
  have all: "list_all2 (\<lambda>s p. eip_string_parameter s = Inr p)
           (public_subnets (self_vpc eng)) (string_parameters (children st))"
    using BaseStack_string_parameters [OF assms] by (simp only: self_vpc_subnets)
  then have "list_all2
               (\<lambda>s p. find_child s ''EIP'' = Inr (string_value p)
                    \<and> parameter_name p = ''/SDKPandas/VPC/'' @ node_id s @ ''/EIP''
                    \<and> parameter_construct_id p = node_id s @ '' EIP SSM'')
               (public_subnets (self_vpc eng)) (string_parameters (children st))"
    by (rule list_all2_mono) (rule step)
  moreover have "length (string_parameters (children st)) = length (public_subnets (self_vpc eng))"
    using all by (simp add: list_all2_lengthD)
  ultimately show ?thesis
    using BaseStack_kinds(1) [OF assms] by blast
qed

theorem eip_parameters_witness:
  "BaseStack three_az_engine ''App'' ''aws-sdk-pandas-base'' [] = Inr three_az_stack
   \<and> (\<exists>v. vpcs (children three_az_stack) = [v]
           \<and> length (string_parameters (children three_az_stack)) = length (public_subnets v)
           \<and> list_all2
               (\<lambda>s p. find_child s ''EIP'' = Inr (string_value p)
                    \<and> parameter_name p = ''/SDKPandas/VPC/'' @ node_id s @ ''/EIP''
                    \<and> parameter_construct_id p = node_id s @ '' EIP SSM'')
               (public_subnets v) (string_parameters (children three_az_stack)))"
  using three_az_constructs eip_parameters [OF three_az_constructs] by blast

text \<open>
  C6. Whenever the constructor returns, the outputs with an export name are exactly seven,
  in this order: the id of the network, the ids of its public subnets 0, 1 and 2, the id
  of its private subnet 0, the ARN of the key and the name of the bucket, each under its
  literal export name. The other outputs (region, database name, role ARN, log group
  name, log stream name) have no export name.
\<close>

theorem exported_outputs:
  assumes "BaseStack eng scope construct_id kwargs = Inr st"
  shows "vpcs (children st) = [self_vpc eng] \<and> keys_of (children st) = [self_key eng]
       \<and> buckets (children st) = [self_bucket eng]
       \<and> 2 < length (public_subnets (self_vpc eng))
       \<and> 0 < length (private_subnets (self_vpc eng))
       \<and> filter (\<lambda>out. export_name out \<noteq> None) (outputs (children st)) =
           [\<lparr>output_construct_id = ''VPC'', output_value = vpc_id (self_vpc eng),
             export_name = Some ''aws-sdk-pandas-base-VPC''\<rparr>,
            \<lparr>output_construct_id = ''PublicSubnet1'',
             output_value = subnet_id (public_subnets (self_vpc eng) ! 0),
             export_name = Some ''aws-sdk-pandas-base-PublicSubnet1''\<rparr>,
            \<lparr>output_construct_id = ''PublicSubnet2'',
             output_value = subnet_id (public_subnets (self_vpc eng) ! 1),
             export_name = Some ''aws-sdk-pandas-base-PublicSubnet2''\<rparr>,
            \<lparr>output_construct_id = ''PublicSubnet3'',
             output_value = subnet_id (public_subnets (self_vpc eng) ! 2),
             export_name = Some ''aws-sdk-pandas-base-PublicSubnet3''\<rparr>,
            \<lparr>output_construct_id = ''PrivateSubnet'',
             output_value = subnet_id (private_subnets (self_vpc eng) ! 0),
             export_name = Some ''aws-sdk-pandas-base-PrivateSubnet''\<rparr>,
            \<lparr>output_construct_id = ''KmsKeyArn'', output_value = key_arn (self_key eng),
             export_name = Some ''aws-sdk-pandas-base-KmsKeyArn''\<rparr>,
            \<lparr>output_construct_id = ''BucketName'',
             output_value = bucket_name (self_bucket eng),
             export_name = Some ''aws-sdk-pandas-base-BucketName''\<rparr>]
       \<and> map output_construct_id
           (filter (\<lambda>out. export_name out = None) (outputs (children st))) =
           [''Region'', ''GlueDatabaseName'', ''GlueDataQualityRole'', ''LogGroupName'',
            ''LogStream'']"
proof -
  have "\<exists>st. BaseStack eng scope construct_id kwargs = Inr st"
    using assms by blast
  then have "2 < length (public_subnets (self_vpc eng))"
    and "0 < length (private_subnets (self_vpc eng))"
    by (simp_all add: BaseStack_returns self_vpc_subnets)
  moreover note BaseStack_kinds(1,2,3) [OF assms]
  ultimately show ?thesis
    unfolding BaseStack_outputs [OF assms] by simp
qed

theorem exported_outputs_witness:
  "BaseStack three_az_engine ''App'' ''aws-sdk-pandas-base'' [] = Inr three_az_stack
   \<and> filter (\<lambda>out. export_name out \<noteq> None) (outputs (children three_az_stack)) =
           [\<lparr>output_construct_id = ''VPC'', output_value = ''vpc-0a1'',
             export_name = Some ''aws-sdk-pandas-base-VPC''\<rparr>,
            \<lparr>output_construct_id = ''PublicSubnet1'', output_value = ''subnet-a1'',
             export_name = Some ''aws-sdk-pandas-base-PublicSubnet1''\<rparr>,
            \<lparr>output_construct_id = ''PublicSubnet2'', output_value = ''subnet-a2'',
             export_name = Some ''aws-sdk-pandas-base-PublicSubnet2''\<rparr>,
            \<lparr>output_construct_id = ''PublicSubnet3'', output_value = ''subnet-a3'',
             export_name = Some ''aws-sdk-pandas-base-PublicSubnet3''\<rparr>,
            \<lparr>output_construct_id = ''PrivateSubnet'', output_value = ''subnet-b1'',
             export_name = Some ''aws-sdk-pandas-base-PrivateSubnet''\<rparr>,
            \<lparr>output_construct_id = ''KmsKeyArn'',
             output_value = ''arn:aws:kms:us-east-1:111122223333:key/k1'',
             export_name = Some ''aws-sdk-pandas-base-KmsKeyArn''\<rparr>,
            \<lparr>output_construct_id = ''BucketName'',
             output_value = ''aws-sdk-pandas-bucket-1'',
             export_name = Some ''aws-sdk-pandas-base-BucketName''\<rparr>]
   \<and> map output_construct_id
           (filter (\<lambda>out. export_name out = None) (outputs (children three_az_stack))) =
           [''Region'', ''GlueDatabaseName'', ''GlueDataQualityRole'', ''LogGroupName'',
            ''LogStream'']"
  using three_az_constructs exported_outputs [OF three_az_constructs]
  by (simp add: self_vpc_def self_key_def self_bucket_def three_az_engine_def Let_def)



text \<open>
  C8. Whenever the constructor returns, the stack has exactly one log group and exactly
  one log stream; the stream belongs to that group, and the retention of the group is
  \<^verbatim>\<open>ONE_MONTH\<close>, that is 30 days.
\<close>

theorem log_group_and_stream:
  assumes "BaseStack eng scope construct_id kwargs = Inr st"
  shows "\<exists>g. log_groups (children st) = [g]
           \<and> map stream_log_group (log_streams (children st)) = [g]
           \<and> retention g = ONE_MONTH \<and> retention_in_days (retention g) = 30"
  unfolding BaseStack_kinds(7,8) [OF assms]
  by (simp add: aws_sdk_pandas_log_group_def aws_sdk_pandas_log_stream_def)

theorem log_group_and_stream_witness:
  "BaseStack three_az_engine ''App'' ''aws-sdk-pandas-base'' [] = Inr three_az_stack
   \<and> (\<exists>g. log_groups (children three_az_stack) = [g]
           \<and> map stream_log_group (log_streams (children three_az_stack)) = [g]
           \<and> retention g = ONE_MONTH \<and> retention_in_days (retention g) = 30)"
  using three_az_constructs log_group_and_stream [OF three_az_constructs] by blast




text \<open>
  C10. The constructor returns exactly when the network has at least three public
  subnets, every public subnet has a child \<^verbatim>\<open>EIP\<close>, and the network has at least one
  private subnet. With that many subnets the four subscripts of the constructor (public
  subnets 0, 1, 2 and private subnet 0) are in range.
\<close>

theorem construction_defined:
  "((\<exists>st. BaseStack eng scope construct_id kwargs = Inr st) \<longleftrightarrow>
      3 \<le> length (engine_public_subnets eng)
      \<and> (\<forall>s \<in> set (engine_public_subnets eng). \<exists>ref. find_child s ''EIP'' = Inr ref)
      \<and> 1 \<le> length (engine_private_subnets eng))
   \<and> (3 \<le> length (engine_public_subnets eng) \<and> 1 \<le> length (engine_private_subnets eng) \<longrightarrow>
        getitem (engine_public_subnets eng) 0 = Inr (engine_public_subnets eng ! 0)
      \<and> getitem (engine_public_subnets eng) 1 = Inr (engine_public_subnets eng ! 1)
      \<and> getitem (engine_public_subnets eng) 2 = Inr (engine_public_subnets eng ! 2)
      \<and> getitem (engine_private_subnets eng) 0 = Inr (engine_private_subnets eng ! 0))"
proof -
  have "(\<exists>st. BaseStack eng scope construct_id kwargs = Inr st) \<longleftrightarrow>
      3 \<le> length (engine_public_subnets eng)
      \<and> (\<forall>s \<in> set (engine_public_subnets eng). \<exists>ref. find_child s ''EIP'' = Inr ref)
      \<and> 1 \<le> length (engine_private_subnets eng)"
    unfolding BaseStack_returns find_child_Inr_iff by (auto simp: Suc_le_eq)
  moreover have "3 \<le> length xs \<Longrightarrow> getitem xs 0 = Inr (xs ! 0) \<and> getitem xs 1 = Inr (xs ! 1)
      \<and> getitem xs 2 = Inr (xs ! 2)" for xs :: "subnet list"
    by (auto simp: getitem_def)
  moreover have "1 \<le> length xs \<Longrightarrow> getitem xs 0 = Inr (xs ! 0)" for xs :: "subnet list"
    by (auto simp: getitem_def)
  ultimately show ?thesis by blast
qed

theorem construction_defined_witness:
  "(\<exists>st. BaseStack three_az_engine ''App'' ''aws-sdk-pandas-base'' [] = Inr st)
   \<and> 3 \<le> length (engine_public_subnets three_az_engine)
   \<and> 1 \<le> length (engine_private_subnets three_az_engine)
   \<and> map (\<lambda>s. find_child s ''EIP'') (engine_public_subnets three_az_engine) =
       [Inr ''eipalloc-1'', Inr ''eipalloc-2'', Inr ''eipalloc-3'']
   \<and> getitem (engine_public_subnets three_az_engine) 2 =
       Inr (engine_public_subnets three_az_engine ! 2)"
  using construction_defined [of three_az_engine "''App''" "''aws-sdk-pandas-base''" "[]"]
  by (simp add: three_az_engine_def find_child_def)

end
